theory Spec2Isabelle
  imports Complex_Main
begin

section \<open>JavaScript numbers\<close>

text \<open>
  A JavaScript Number is modelled as an exact rational, or one of the three special
  values that the handlers can produce (\<open>parseInt\<close> of a string without digits,
  a division by zero). Rounding of doubles and the sign of zero are not modelled.
\<close>

datatype jsnum = NaN | PInf | NInf | Fin rat




definition js_sign :: "jsnum \<Rightarrow> int" where
  "js_sign x = (case x of NaN \<Rightarrow> 0 | PInf \<Rightarrow> 1 | NInf \<Rightarrow> - 1
                | Fin a \<Rightarrow> (if a < 0 then - 1 else if a = 0 then 0 else 1))"

definition js_inf :: "int \<Rightarrow> jsnum" where
  "js_inf s = (if s < 0 then NInf else if s = 0 then NaN else PInf)"


fun js_div :: "jsnum \<Rightarrow> jsnum \<Rightarrow> jsnum" where
  "js_div (Fin a) (Fin b) = (if b = 0 then js_inf (js_sign (Fin a)) else Fin (a / b))"
| "js_div NaN y = NaN"
| "js_div x NaN = NaN"
| "js_div (Fin a) y = Fin 0"
| "js_div x (Fin b) = js_inf (js_sign x * (if b < 0 then - 1 else 1))"
| "js_div x y = NaN"

fun js_ceil :: "jsnum \<Rightarrow> jsnum" where
  "js_ceil (Fin a) = Fin (of_int \<lceil>a\<rceil>)"
| "js_ceil x = x"





subsection \<open>parseInt\<close>


definition radix_digit :: "int \<Rightarrow> char \<Rightarrow> int option" where
  "radix_digit r c =
     (let n = int (of_char c);
          v = (if 48 \<le> n \<and> n \<le> 57 then n - 48
               else if 97 \<le> n \<and> n \<le> 122 then n - 87
               else if 65 \<le> n \<and> n \<le> 90 then n - 55
               else 36)
      in if v < r then Some v else None)"







section \<open>Documents and collections\<close>

text \<open>
  An ObjectId is kept in its canonical string form. A collection is the list of its
  documents in insertion order. Dates are milliseconds since the epoch.
\<close>

type_synonym oid = string

record review =
  r_id :: oid
  user :: oid
  movie :: oid
  rating :: rat
  reviewText :: string
  createdAt :: int
  updatedAt :: int

record movie_doc =
  m_id :: oid
  title :: string
  genre :: "string list"
  actors :: "oid list"
  directors :: "oid list"
  releaseDate :: "int option"
  runtime :: "rat option"
  averageRating :: rat
  ageRating :: "string option"
  boxOffice :: "rat list"

record user_doc =
  u_id :: oid
  username :: string
  email :: string
  favoriteGenres :: "string list"
  favoriteActors :: "oid list"
  role :: string
  wishlist :: "oid list"
  remindersForNewReleases :: bool
  sendNotifications :: bool

record filmography_entry =
  f_movie :: oid
  f_role :: string
  f_year :: "int option"

record person_doc =
  p_id :: oid
  name :: string
  ptype :: string
  filmography :: "filmography_entry list"

record news_doc =
  n_id :: oid
  n_title :: string
  n_description :: string
  n_content :: string
  n_category :: string
  relatedMovies :: "oid list"
  relatedActors :: "oid list"

record customlist_doc =
  l_id :: oid
  l_user :: oid
  l_name :: string
  l_description :: string
  l_movies :: "oid list"

record db =
  movies :: "movie_doc list"
  users :: "user_doc list"
  reviews :: "review list"
  persons :: "person_doc list"
  news :: "news_doc list"
  customLists :: "customlist_doc list"

text \<open>\<open>Model.findById\<close>: the first document with the id.\<close>

definition findById :: "('a \<Rightarrow> oid) \<Rightarrow> 'a list \<Rightarrow> oid \<Rightarrow> 'a option" where
  "findById key c i = find (\<lambda>d. key d = i) c"

text \<open>Writing one document back: the first document with the id is replaced.\<close>

fun replaceById :: "('a \<Rightarrow> oid) \<Rightarrow> 'a \<Rightarrow> 'a list \<Rightarrow> 'a list" where
  "replaceById key d [] = []"
| "replaceById key d (x # xs) = (if key x = key d then d # xs else x # replaceById key d xs)"

text \<open>\<open>Model.findByIdAndUpdate\<close>: the first document with the id is updated.\<close>

fun updateById :: "('a \<Rightarrow> oid) \<Rightarrow> oid \<Rightarrow> ('a \<Rightarrow> 'a) \<Rightarrow> 'a list \<Rightarrow> 'a list" where
  "updateById key i f [] = []"
| "updateById key i f (x # xs) = (if key x = i then f x # xs else x # updateById key i f xs)"

section \<open>Responses and errors\<close>

datatype js_error =
    ValidationError "string list"
  | CastError string
  | TypeError string
  | QueryError string

datatype body =
    Message string
  | MessageError string js_error
  | MessageReview string review
  | ReviewList "(review \<times> string option) list"
  | AverageRating jsnum

type_synonym response = "nat \<times> body"

section \<open>Schema validation\<close>

text \<open>
  The review schema: \<open>rating\<close> is required with \<open>min: 1, max: 5\<close>, and
  \<open>reviewText\<close> is \<open>required: true\<close>; the required validator of a String path
  rejects a missing and an empty string. The result is the list of failing paths.
\<close>

definition review_validation :: "rat \<Rightarrow> string option \<Rightarrow> string list" where
  "review_validation rt txt =
     (if rt < 1 \<or> 5 < rt then [''rating''] else []) @
     (case txt of None \<Rightarrow> [''reviewText'']
      | Some t \<Rightarrow> if t = [] then [''reviewText''] else [])"

text \<open>The movie schema, for the paths of the model.\<close>

definition movie_validation :: "movie_doc \<Rightarrow> string list" where
  "movie_validation m =
     (if title m = [] then [''title''] else []) @
     (case runtime m of None \<Rightarrow> [] | Some t \<Rightarrow> if t < 0 then [''runtime''] else []) @
     (if averageRating m < 0 \<or> 5 < averageRating m then [''averageRating''] else []) @
     (case ageRating m of None \<Rightarrow> []
      | Some a \<Rightarrow> if a \<in> set [''G'', ''PG'', ''PG-13'', ''R'', ''NC-17'', ''Unrated''] then []
                  else [''ageRating'']) @
     (if list_ex (\<lambda>v. v < 0) (boxOffice m) then [''boxOffice''] else [])"

section \<open>Reviews and the average rating\<close>

text \<open>\<open>ReviewAndRating.find({ movie: movieId })\<close>.\<close>

definition reviews_of :: "db \<Rightarrow> oid \<Rightarrow> review list" where
  "reviews_of d movieId = filter (\<lambda>r. movie r = movieId) (reviews d)"

text \<open>\<open>reviews.reduce((sum, review) => sum + review.rating, 0) / reviews.length\<close>.\<close>

definition average :: "review list \<Rightarrow> jsnum" where
  "average rs = js_div (Fin (foldl (\<lambda>sum r. sum + rating r) 0 rs)) (Fin (of_nat (length rs)))"

text \<open>
  The \<open>post('save')\<close> hook of the review schema. Reading a property of the missing
  movie throws; \<open>movie.save()\<close> validates the movie, and a \<open>NaN\<close> does not cast to
  a Number path.
\<close>

definition post_save :: "db \<Rightarrow> review \<Rightarrow> js_error + db" where
  "post_save d this =
     (let found = findById m_id (movies d) (movie this);
          avg = average (reviews_of d (movie this))
      in case found of
           None \<Rightarrow> Inl (TypeError ''averageRating'')
         | Some m \<Rightarrow>
             (case avg of
                Fin a \<Rightarrow>
                  (let m' = m\<lparr>averageRating := a\<rparr>
                   in if movie_validation m' = []
                      then Inr (d\<lparr>movies := replaceById m_id m' (movies d)\<rparr>)
                      else Inl (ValidationError (movie_validation m')))
              | _ \<Rightarrow> Inl (ValidationError [''averageRating''])))"

text \<open>The helper \<open>updateMovieRating\<close> of the reviews router; no validators run.\<close>

definition updateMovieRating :: "db \<Rightarrow> oid \<Rightarrow> js_error + db" where
  "updateMovieRating d movieId =
     (case average (reviews_of d movieId) of
        Fin a \<Rightarrow> Inr (d\<lparr>movies := updateById m_id movieId (\<lambda>m. m\<lparr>averageRating := a\<rparr>) (movies d)\<rparr>)
      | _ \<Rightarrow> Inl (CastError ''averageRating''))"

text \<open>
  The JSON body of a review request. \<open>rating\<close> is a JSON number when present,
  \<open>movie\<close> and \<open>reviewText\<close> are strings when present.
\<close>

record review_body =
  b_movie :: "string option"
  b_rating :: "rat option"
  b_reviewText :: "string option"

text \<open>
  \<open>newReview.save()\<close> and what follows it in \<open>router.post('/')\<close>: validation, the
  insert, the hook, then \<open>updateMovieRating\<close>; an exception ends in the 500 reply
  with the writes made so far.
\<close>

definition save_new_review ::
  "db \<Rightarrow> int \<Rightarrow> oid \<Rightarrow> oid \<Rightarrow> oid \<Rightarrow> rat \<Rightarrow> string option \<Rightarrow> response \<times> db" where
  "save_new_review d now newId userId mv rt txt =
     (case txt of
        None \<Rightarrow> ((500, MessageError ''Error adding review'' (ValidationError (review_validation rt txt))), d)
      | Some t \<Rightarrow>
          if review_validation rt txt \<noteq> []
          then ((500, MessageError ''Error adding review'' (ValidationError (review_validation rt txt))), d)
          else
            (let newReview = \<lparr>r_id = newId, user = userId, movie = mv, rating = rt,
                               reviewText = t, createdAt = now, updatedAt = now\<rparr>;
                 d1 = d\<lparr>reviews := reviews d @ [newReview]\<rparr>
             in case post_save d1 newReview of
                  Inl e \<Rightarrow> ((500, MessageError ''Error adding review'' e), d1)
                | Inr d2 \<Rightarrow>
                    (case updateMovieRating d2 mv of
                       Inl e \<Rightarrow> ((500, MessageError ''Error adding review'' e), d2)
                     | Inr d3 \<Rightarrow>
                         ((201, MessageReview ''Review and rating added successfully'' newReview), d3))))"

text \<open>
  \<open>router.post('/')\<close> of the reviews router, after the token check: \<open>userId\<close> is the
  id in the token, \<open>newId\<close> the id given to the new document, \<open>isValid\<close> the
  library's test that a string is an ObjectId.
\<close>

definition post_review ::
  "(string \<Rightarrow> bool) \<Rightarrow> db \<Rightarrow> int \<Rightarrow> oid \<Rightarrow> oid \<Rightarrow> review_body \<Rightarrow> response \<times> db" where
  "post_review isValid d now newId userId b =
     (case (b_movie b, b_rating b) of
        (Some mv, Some rt) \<Rightarrow>
          if mv = [] \<or> rt = 0
          then ((400, Message ''MovieID, rating are mandatory fields while reviewText is optional''), d)
          else if rt < 1 \<or> 5 < rt
          then ((400, Message ''Rating must be between 1 and 5''), d)
          else if \<not> isValid mv
          then ((400, Message ''Invalid Movie ID format''), d)
          else if findById m_id (movies d) mv = None
          then ((404, Message ''Movie not found''), d)
          else if findById u_id (users d) userId = None
          then ((404, Message ''User not found''), d)
          else if find (\<lambda>r. user r = userId \<and> movie r = mv) (reviews d) \<noteq> None
          then ((400, Message ''You have already reviewed this movie''), d)
          else save_new_review d now newId userId mv rt (b_reviewText b)
      | _ \<Rightarrow> ((400, Message ''MovieID, rating are mandatory fields while reviewText is optional''), d))"

text \<open>
  Truthiness of an optional number and of an optional string: absent, \<open>0\<close> and the
  empty string are falsy.
\<close>

definition truthy_num :: "rat option \<Rightarrow> bool" where
  "truthy_num r = (case r of None \<Rightarrow> False | Some v \<Rightarrow> v \<noteq> 0)"

definition truthy_str :: "string option \<Rightarrow> bool" where
  "truthy_str t = (case t of None \<Rightarrow> False | Some s \<Rightarrow> s \<noteq> [])"

text \<open>\<open>router.put('/:reviewId')\<close>. A field is updated when its new value is truthy.\<close>

definition apply_update :: "review \<Rightarrow> rat option \<Rightarrow> string option \<Rightarrow> int \<Rightarrow> review" where
  "apply_update rv r t now =
     rv\<lparr>rating := (case r of Some v \<Rightarrow> if v \<noteq> 0 then v else rating rv | None \<Rightarrow> rating rv),
        reviewText := (case t of Some s \<Rightarrow> if s \<noteq> [] then s else reviewText rv | None \<Rightarrow> reviewText rv),
        updatedAt := now\<rparr>"

text \<open>
  \<open>review.save()\<close> and what follows it in \<open>router.put('/:reviewId')\<close>, for the
  review \<open>rv\<close> with its fields already assigned.
\<close>

definition save_updated_review :: "db \<Rightarrow> review \<Rightarrow> response \<times> db" where
  "save_updated_review d rv =
     (if review_validation (rating rv) (Some (reviewText rv)) \<noteq> []
      then ((500, MessageError ''Error updating review''
               (ValidationError (review_validation (rating rv) (Some (reviewText rv))))), d)
      else
        (let d1 = d\<lparr>reviews := replaceById r_id rv (reviews d)\<rparr>
         in case post_save d1 rv of
              Inl e \<Rightarrow> ((500, MessageError ''Error updating review'' e), d1)
            | Inr d2 \<Rightarrow>
                (case updateMovieRating d2 (movie rv) of
                   Inl e \<Rightarrow> ((500, MessageError ''Error updating review'' e), d2)
                 | Inr d3 \<Rightarrow> ((200, MessageReview ''Review updated successfully'' rv), d3))))"

definition put_review ::
  "(string \<Rightarrow> bool) \<Rightarrow> db \<Rightarrow> int \<Rightarrow> string \<Rightarrow> oid \<Rightarrow> review_body \<Rightarrow> response \<times> db" where
  "put_review isValid d now reviewId userId b =
     (if \<not> truthy_num (b_rating b) \<and> \<not> truthy_str (b_reviewText b)
      then ((400, Message ''Either rating or reviewText must be provided for update''), d)
      else if truthy_num (b_rating b) \<and>
              (case b_rating b of Some v \<Rightarrow> v < 1 \<or> 5 < v | None \<Rightarrow> False)
      then ((400, Message ''Rating must be between 1 and 5''), d)
      else if \<not> isValid reviewId
      then ((500, MessageError ''Error updating review'' (CastError ''_id'')), d)
      else
        (case findById r_id (reviews d) reviewId of
           None \<Rightarrow> ((404, Message ''Review not found''), d)
         | Some rv \<Rightarrow>
             if user rv \<noteq> userId
             then ((403, Message ''You are not authorized to update this review''), d)
             else save_updated_review d (apply_update rv (b_rating b) (b_reviewText b) now)))"







section \<open>Paginated listings\<close>

















section \<open>Writes that attach references\<close>

text \<open>
  The reply of a handler, or no reply when an exception leaves the handler outside of
  a \<open>try\<close> block.
\<close>

datatype outcome = Reply nat string | NoReply js_error

text \<open>\<open>ids.join(', ')\<close>.\<close>

fun join_ids :: "string list \<Rightarrow> string" where
  "join_ids [] = []"
| "join_ids [x] = x"
| "join_ids (x # y # ys) = x @ '', '' @ join_ids (y # ys)"

text \<open>\<open>Model.find({ '_id': { $in: ids } })\<close>.\<close>

definition find_in :: "('a \<Rightarrow> oid) \<Rightarrow> 'a list \<Rightarrow> oid list \<Rightarrow> 'a list" where
  "find_in key c ids = filter (\<lambda>x. key x \<in> set ids) c"

subsection \<open>Movies\<close>

text \<open>
  The body of \<open>POST /api/moviesCRUD/add\<close>, for the paths of the model;
  \<open>directors\<close>, \<open>actors\<close> and \<open>genre\<close> are arrays when present.
\<close>

record movie_body =
  mb_title :: "string option"
  mb_genre :: "string list option"
  mb_directors :: "oid list option"
  mb_actors :: "oid list option"
  mb_releaseDate :: "int option"
  mb_runtime :: "rat option"
  mb_averageRating :: "rat option"
  mb_ageRating :: "string option"
  mb_boxOffice :: "rat list"
  mb_countryOfOrigin :: "string option"
  mb_language :: "string option"

text \<open>
  The loops that push a filmography entry to each person;
  \<open>getFullYear\<close> is the calendar year of a date.
\<close>

definition push_filmography ::
  "(int \<Rightarrow> int) \<Rightarrow> oid \<Rightarrow> string \<Rightarrow> int \<Rightarrow> person_doc list \<Rightarrow> oid list \<Rightarrow> person_doc list" where
  "push_filmography getFullYear movieId r date ps ids =
     foldl (\<lambda>acc i. updateById p_id i
              (\<lambda>p. p\<lparr>filmography := filmography p @
                         [\<lparr>f_movie = movieId, f_role = r, f_year = Some (getFullYear date)\<rparr>]\<rparr>) acc)
       ps ids"

text \<open>
  \<open>router.post('/add')\<close> of the movies CRUD router; \<open>role\<close> is the role in the
  token, \<open>newId\<close> the id given to the new movie. Saving validates the movie and meets
  the unique index on \<open>title\<close>.
\<close>

definition post_movie ::
  "(string \<Rightarrow> bool) \<Rightarrow> (int \<Rightarrow> int) \<Rightarrow> db \<Rightarrow> oid \<Rightarrow> string \<Rightarrow> movie_body \<Rightarrow> outcome \<times> db" where
  "post_movie isValid getFullYear d newId tokenRole b =
     (if tokenRole \<noteq> ''admin'' then (Reply 403 ''Access denied. You are not an admin.'', d)
      else
        (case (mb_title b, mb_genre b, mb_directors b, mb_actors b, mb_releaseDate b) of
           (Some ttl, Some gnr, Some dirs, Some acts, Some date) \<Rightarrow>
             if ttl = [] \<or> \<not> truthy_num (mb_runtime b) \<or> \<not> truthy_str (mb_ageRating b) \<or>
                \<not> truthy_str (mb_countryOfOrigin b) \<or> \<not> truthy_str (mb_language b)
             then (Reply 400 ''Title, genre, director, releaseDate, runtime, actors, ageRating, countryOfOrigin, and language are required fields'', d)
             else if \<not> list_all isValid dirs then (Reply 500 ''Error adding movie'', d)
             else if length (find_in p_id (persons d) dirs) \<noteq> length dirs
             then (Reply 400 ''One or more directors do not exist'', d)
             else if \<not> list_all isValid acts then (Reply 500 ''Error adding movie'', d)
             else if length (find_in p_id (persons d) acts) \<noteq> length acts
             then (Reply 400 ''One or more cast members do not exist'', d)
             else
               (let newMovie = \<lparr>m_id = newId, title = ttl, genre = gnr, actors = acts,
                       directors = dirs, releaseDate = Some date, runtime = mb_runtime b,
                       averageRating = (case mb_averageRating b of None \<Rightarrow> 0 | Some a \<Rightarrow> a),
                       ageRating = mb_ageRating b, boxOffice = mb_boxOffice b\<rparr>
                in if movie_validation newMovie \<noteq> [] \<or> list_ex (\<lambda>m. title m = ttl) (movies d)
                   then (Reply 500 ''Error adding movie'', d)
                   else (Reply 201 ''Movie added successfully'',
                         d\<lparr>movies := movies d @ [newMovie],
                            persons := push_filmography getFullYear newId ''Actor'' date
                                         (push_filmography getFullYear newId ''Director'' date
                                            (persons d) dirs) acts\<rparr>))
         | _ \<Rightarrow> (Reply 400 ''Title, genre, director, releaseDate, runtime, actors, ageRating, countryOfOrigin, and language are required fields'', d)))"

text \<open>
  The body of \<open>PUT /api/moviesCRUD/:id\<close>. A list field is a single value or an
  array; \<open>mu_others\<close> says that the body has keys that are not paths of the model.
\<close>

datatype id_field = OneId string | IdArray "string list"

record movie_update =
  mu_title :: "string option"
  mu_genre :: "id_field option"
  mu_directors :: "id_field option"
  mu_actors :: "id_field option"
  mu_releaseDate :: "int option"
  mu_runtime :: "rat option"
  mu_averageRating :: "rat option"
  mu_ageRating :: "string option"
  mu_others :: bool

text \<open>\<open>updateFields.directors || []\<close>, then wrapped into an array when it is none.\<close>

definition as_array :: "id_field option \<Rightarrow> string list" where
  "as_array f = (case f of None \<Rightarrow> [] | Some (OneId x) \<Rightarrow> (if x = [] then [] else [x])
                 | Some (IdArray xs) \<Rightarrow> xs)"

text \<open>
  The \<open>$push\<close> and \<open>$set\<close> of the update, on the paths of the model. A field is
  written when its new value is truthy; the \<open>$each\<close> list of a list field is the
  array, or the single value in an array.
\<close>

definition apply_movie_update :: "movie_update \<Rightarrow> movie_doc \<Rightarrow> movie_doc" where
  "apply_movie_update b m =
     m\<lparr>title := (if truthy_str (mu_title b) then (case mu_title b of Some t \<Rightarrow> t | None \<Rightarrow> title m)
                  else title m),
       genre := genre m @ as_array (mu_genre b),
       actors := actors m @ as_array (mu_actors b),
       directors := directors m @ as_array (mu_directors b),
       releaseDate := (case mu_releaseDate b of Some t \<Rightarrow> Some t | None \<Rightarrow> releaseDate m),
       runtime := (if truthy_num (mu_runtime b) then mu_runtime b else runtime m),
       averageRating := (case mu_averageRating b of
                           Some a \<Rightarrow> if a \<noteq> 0 then a else averageRating m
                         | None \<Rightarrow> averageRating m),
       ageRating := (if truthy_str (mu_ageRating b) then mu_ageRating b else ageRating m)\<rparr>"

text \<open>\<open>router.put('/:id')\<close> of the movies CRUD router.\<close>

definition put_movie ::
  "(string \<Rightarrow> bool) \<Rightarrow> (int \<Rightarrow> int) \<Rightarrow> db \<Rightarrow> string \<Rightarrow> string \<Rightarrow> movie_update \<Rightarrow> outcome \<times> db" where
  "put_movie isValid getFullYear d movieId tokenRole b =
     (if tokenRole \<noteq> ''admin'' then (Reply 403 ''Access denied. You are not an admin.'', d)
      else if \<not> isValid movieId then (Reply 400 ''Invalid movie ID'', d)
      else if mu_title b = None \<and> mu_genre b = None \<and> mu_directors b = None \<and>
              mu_actors b = None \<and> mu_releaseDate b = None \<and> mu_runtime b = None \<and>
              mu_averageRating b = None \<and> mu_ageRating b = None \<and> \<not> mu_others b
      then (Reply 400 ''No fields provided to update'', d)
      else
        (let dirs = as_array (mu_directors b); acts = as_array (mu_actors b)
         in if \<not> list_all isValid dirs then (Reply 400 ''One or more director IDs are invalid'', d)
            else if \<not> list_all isValid acts then (Reply 400 ''One or more actor IDs are invalid'', d)
            else if 0 < length dirs \<and> length (find_in p_id (persons d) dirs) \<noteq> length dirs
            then (Reply 400 ''One or more directors do not exist'', d)
            else if 0 < length acts \<and> length (find_in p_id (persons d) acts) \<noteq> length acts
            then (Reply 400 ''One or more actors do not exist'', d)
            else
              (case findById m_id (movies d) movieId of
                 None \<Rightarrow> (Reply 404 ''Movie not found'', d)
               | Some m \<Rightarrow>
                   (let duplicateDirectors = filter (\<lambda>i. i \<in> set (directors m)) dirs;
                        duplicateActors = filter (\<lambda>i. i \<in> set (actors m)) acts
                    in if 0 < length duplicateDirectors
                       then (Reply 400 (''The following directors are already added: '' @
                                          join_ids duplicateDirectors), d)
                       else if 0 < length duplicateActors
                       then (Reply 400 (''The following actors are already added: '' @
                                          join_ids duplicateActors), d)
                       else
                         (let updatedMovie = apply_movie_update b m
                          in if list_ex (\<lambda>x. m_id x \<noteq> movieId \<and> title x = title updatedMovie) (movies d)
                             then (Reply 500 ''Error updating movie'', d)
                             else
                               (let d1 = d\<lparr>movies := updateById m_id movieId (apply_movie_update b) (movies d)\<rparr>
                                in case releaseDate updatedMovie of
                                     None \<Rightarrow>
                                       (if dirs = [] \<and> acts = []
                                        then (Reply 200 ''Movie updated successfully'', d1)
                                        else (Reply 500 ''Error updating movie'', d1))
                                   | Some date \<Rightarrow>
                                       (Reply 200 ''Movie updated successfully'',
                                        d1\<lparr>persons := push_filmography getFullYear movieId ''Actor'' date
                                               (push_filmography getFullYear movieId ''Director'' date
                                                  (persons d) dirs) acts\<rparr>)))))))"

subsection \<open>News\<close>

record news_body =
  nb_title :: "string option"
  nb_description :: "string option"
  nb_content :: "string option"
  nb_category :: "string option"
  nb_relatedMovies :: "string list option"
  nb_relatedActors :: "string list option"

definition validCategories :: "string list" where
  "validCategories = [''Movies'', ''Actors'', ''Projects'', ''Industry'', ''Drama'']"

text \<open>The requested ids that are not among the ids found.\<close>

definition missing_ids :: "('a \<Rightarrow> oid) \<Rightarrow> 'a list \<Rightarrow> string list \<Rightarrow> string list" where
  "missing_ids key c ids =
     (let existingIds = map key (find_in key c ids)
      in filter (\<lambda>i. i \<notin> set existingIds) ids)"

text \<open>
  \<open>router.post('/add-news')\<close>; the fields are strings and arrays when present. The
  reply 201 carries the article and no message.
\<close>

definition add_news ::
  "(string \<Rightarrow> bool) \<Rightarrow> db \<Rightarrow> oid \<Rightarrow> string \<Rightarrow> news_body \<Rightarrow> outcome \<times> db" where
  "add_news isValid d newId tokenRole b =
     (if tokenRole \<noteq> ''admin'' then (Reply 403 ''Access denied. You are not an admin.'', d)
      else if \<not> truthy_str (nb_title b)
      then (Reply 400 ''Title is required and must be a string.'', d)
      else if \<not> truthy_str (nb_description b)
      then (Reply 400 ''Description is required and must be a string.'', d)
      else if \<not> truthy_str (nb_content b)
      then (Reply 400 ''Content is required and must be a string.'', d)
      else if \<not> truthy_str (nb_category b) \<or>
              (case nb_category b of Some c \<Rightarrow> c \<notin> set validCategories | None \<Rightarrow> True)
      then (Reply 400 ''Category is required and must be one of the following: Movies, Actors, Projects, Industry.'', d)
      else if (case nb_relatedMovies b of Some ms \<Rightarrow> \<not> list_all isValid ms | None \<Rightarrow> False)
      then (Reply 400 ''Each related movie must be a valid ObjectId.'', d)
      else if (case nb_relatedMovies b of
                 Some ms \<Rightarrow> 0 < length (missing_ids m_id (movies d) ms) | None \<Rightarrow> False)
      then (Reply 400 (''The following related movie IDs do not exist: '' @
                 join_ids (missing_ids m_id (movies d) (case nb_relatedMovies b of Some ms \<Rightarrow> ms | None \<Rightarrow> []))), d)
      else if (case nb_relatedActors b of Some as \<Rightarrow> \<not> list_all isValid as | None \<Rightarrow> False)
      then (Reply 400 ''Each related actor must be a valid ObjectId.'', d)
      else if (case nb_relatedActors b of
                 Some as \<Rightarrow> 0 < length (missing_ids p_id (persons d) as) | None \<Rightarrow> False)
      then (Reply 400 (''The following related actor IDs do not exist: '' @
                 join_ids (missing_ids p_id (persons d) (case nb_relatedActors b of Some as \<Rightarrow> as | None \<Rightarrow> []))), d)
      else
        (case (nb_title b, nb_description b, nb_content b, nb_category b) of
           (Some t, Some ds, Some c, Some cat) \<Rightarrow>
             (Reply 201 [],
              d\<lparr>news := news d @
                   [\<lparr>n_id = newId, n_title = t, n_description = ds, n_content = c, n_category = cat,
                     relatedMovies = (case nb_relatedMovies b of Some ms \<Rightarrow> ms | None \<Rightarrow> []),
                     relatedActors = (case nb_relatedActors b of Some as \<Rightarrow> as | None \<Rightarrow> [])\<rparr>]\<rparr>)
         | _ \<Rightarrow> (Reply 400 ''Error creating news article'', d)))"

text \<open>
  The helper \<open>checkObjectIdsExist\<close> of the news router: the ids that are not ids of
  the Person collection.
\<close>

definition checkObjectIdsExist :: "db \<Rightarrow> string list \<Rightarrow> string list" where
  "checkObjectIdsExist d ids = missing_ids p_id (persons d) ids"

definition apply_news_update :: "news_body \<Rightarrow> news_doc \<Rightarrow> news_doc" where
  "apply_news_update b n =
     n\<lparr>n_title := (case nb_title b of Some t \<Rightarrow> if t \<noteq> [] then t else n_title n | None \<Rightarrow> n_title n),
       n_description := (case nb_description b of Some t \<Rightarrow> if t \<noteq> [] then t else n_description n
                         | None \<Rightarrow> n_description n),
       n_content := (case nb_content b of Some t \<Rightarrow> if t \<noteq> [] then t else n_content n
                     | None \<Rightarrow> n_content n),
       n_category := (case nb_category b of Some t \<Rightarrow> if t \<noteq> [] then t else n_category n
                      | None \<Rightarrow> n_category n),
       relatedMovies := (case nb_relatedMovies b of Some ms \<Rightarrow> ms | None \<Rightarrow> relatedMovies n),
       relatedActors := (case nb_relatedActors b of Some as \<Rightarrow> as | None \<Rightarrow> relatedActors n)\<rparr>"

text \<open>The required paths and the category list of the news schema.\<close>

definition news_validation :: "news_doc \<Rightarrow> bool" where
  "news_validation n =
     (n_title n \<noteq> [] \<and> n_description n \<noteq> [] \<and> n_content n \<noteq> [] \<and>
      n_category n \<in> set validCategories)"

text \<open>
  \<open>router.put('/update-news/:id')\<close>. The conversion of the path parameter to an
  ObjectId is outside of any \<open>try\<close>.
\<close>

definition update_news ::
  "(string \<Rightarrow> bool) \<Rightarrow> db \<Rightarrow> string \<Rightarrow> string \<Rightarrow> news_body \<Rightarrow> outcome \<times> db" where
  "update_news isValid d newsId tokenRole b =
     (if tokenRole \<noteq> ''admin'' then (Reply 403 ''Access denied. You are not an admin.'', d)
      else if \<not> isValid newsId then (NoReply (TypeError ''ObjectId''), d)
      else
        (case findById n_id (news d) newsId of
           None \<Rightarrow> (Reply 404 ''News article not found.'', d)
         | Some newsArticle \<Rightarrow>
             if truthy_str (nb_category b) \<and>
                (case nb_category b of Some c \<Rightarrow> c \<notin> set validCategories | None \<Rightarrow> False)
             then (Reply 400 ''Category must be one of: Movies, Actors, Projects, Industry, Drama'', d)
             else if (case nb_relatedMovies b of Some ms \<Rightarrow> \<not> list_all isValid ms | None \<Rightarrow> False)
             then (Reply 400 ''Each related movie must be a valid ObjectId.'', d)
             else if (case nb_relatedMovies b of
                        Some ms \<Rightarrow> 0 < length (checkObjectIdsExist d ms) | None \<Rightarrow> False)
             then (Reply 400 (''The following related movie IDs do not exist: '' @
                     join_ids (checkObjectIdsExist d (case nb_relatedMovies b of Some ms \<Rightarrow> ms | None \<Rightarrow> []))), d)
             else if (case nb_relatedActors b of Some as \<Rightarrow> \<not> list_all isValid as | None \<Rightarrow> False)
             then (Reply 400 ''Each related actor must be a valid ObjectId.'', d)
             else if \<not> truthy_str (nb_title b) \<and> \<not> truthy_str (nb_description b) \<and>
                     \<not> truthy_str (nb_content b) \<and> \<not> truthy_str (nb_category b) \<and>
                     nb_relatedMovies b = None \<and> nb_relatedActors b = None
             then (Reply 400 ''No fields provided to update. Nothing was updated.'', d)
             else if (case nb_relatedActors b of
                        Some as \<Rightarrow> 0 < length (checkObjectIdsExist d as) | None \<Rightarrow> False)
             then (Reply 400 (''The following related actor IDs do not exist: '' @
                     join_ids (checkObjectIdsExist d (case nb_relatedActors b of Some as \<Rightarrow> as | None \<Rightarrow> []))), d)
             else if \<not> news_validation (apply_news_update b newsArticle)
             then (Reply 500 ''Error updating news article'', d)
             else (Reply 200 ''News article updated successfully'',
                   d\<lparr>news := replaceById n_id (apply_news_update b newsArticle) (news d)\<rparr>)))"

subsection \<open>Custom lists and the wishlist\<close>

text \<open>
  \<open>router.post('/:listId/add-movie')\<close> of the custom-list router; \<open>userId\<close> is the id
  in the token. An id that is no ObjectId does not cast in the query.
\<close>

definition customlist_add_movie ::
  "(string \<Rightarrow> bool) \<Rightarrow> db \<Rightarrow> string \<Rightarrow> oid \<Rightarrow> string option \<Rightarrow> outcome \<times> db" where
  "customlist_add_movie isValid d listId userId movieId =
     (case movieId of
        None \<Rightarrow> (Reply 400 ''Movie ID is required'', d)
      | Some mv \<Rightarrow>
          if mv = [] then (Reply 400 ''Movie ID is required'', d)
          else if \<not> isValid mv then (Reply 500 ''Failed to add movie to custom list'', d)
          else if findById m_id (movies d) mv = None
          then (Reply 404 ''Movie not found in the database'', d)
          else if \<not> isValid listId then (Reply 500 ''Failed to add movie to custom list'', d)
          else
            (case findById l_id (customLists d) listId of
               None \<Rightarrow> (Reply 404 ''Custom list not found'', d)
             | Some customList \<Rightarrow>
                 if l_user customList \<noteq> userId
                 then (Reply 403 ''You are not authorized to add movie to this custom list'', d)
                 else if mv \<in> set (l_movies customList)
                 then (Reply 400 ''Movie already in the list'', d)
                 else if l_name customList = []
                 then (Reply 500 ''Failed to add movie to custom list'', d)
                 else (Reply 200 ''Movie added to custom list successfully'',
                       d\<lparr>customLists := replaceById l_id
                            (customList\<lparr>l_movies := l_movies customList @ [mv]\<rparr>) (customLists d)\<rparr>)))"

text \<open>
  \<open>router.post('/add')\<close> of the wishlist router. The handler makes no query on the
  movies.
\<close>

definition wishlist_add ::
  "(string \<Rightarrow> bool) \<Rightarrow> db \<Rightarrow> oid \<Rightarrow> string option \<Rightarrow> outcome \<times> db" where
  "wishlist_add isValid d userId movieId =
     (case movieId of
        None \<Rightarrow> (Reply 400 ''Movie ID is required'', d)
      | Some mv \<Rightarrow>
          if mv = [] then (Reply 400 ''Movie ID is required'', d)
          else
            (case findById u_id (users d) userId of
               None \<Rightarrow> (Reply 404 ''User not found'', d)
             | Some u \<Rightarrow>
                 if mv \<in> set (wishlist u) then (Reply 400 ''Movie already in wishlist'', d)
                 else if \<not> isValid mv then (Reply 500 ''Failed to add movie to wishlist'', d)
                 else if username u = [] \<or> email u = [] \<or> role u \<notin> set [''user'', ''admin'']
                 then (Reply 500 ''Failed to add movie to wishlist'', d)
                 else (Reply 200 ''Movie added to wishlist successfully'',
                       d\<lparr>users := replaceById u_id (u\<lparr>wishlist := wishlist u @ [mv]\<rparr>) (users d)\<rparr>)))"

text \<open>A write that is refused: an error reply or none, and the database as it was.\<close>

definition rejected :: "outcome \<times> db \<Rightarrow> db \<Rightarrow> bool" where
  "rejected r d = (snd r = d \<and> (case fst r of Reply st msg \<Rightarrow> 400 \<le> st | NoReply e \<Rightarrow> True))"

text \<open>The checks of \<open>add-news\<close> on the text fields and the category pass.\<close>

definition news_fields_ok :: "news_body \<Rightarrow> bool" where
  "news_fields_ok b = (truthy_str (nb_title b) \<and> truthy_str (nb_description b) \<and>
      truthy_str (nb_content b) \<and> (\<exists>c. nb_category b = Some c \<and> c \<in> set validCategories))"

section \<open>The notification job\<close>

text \<open>
  \<open>populate\<close> of a list of Person ids: the documents that exist, in the order of the
  ids.
\<close>

definition populate_persons :: "db \<Rightarrow> oid list \<Rightarrow> person_doc list" where
  "populate_persons d ids = List.map_filter (findById p_id (persons d)) ids"

text \<open>
  The property \<open>type\<close> of a user document. The user schema declares no path of that
  name (the role is in \<open>role\<close>), so reading it gives \<open>undefined\<close>.
\<close>

definition user_type :: "user_doc \<Rightarrow> string option" where
  "user_type u = None"

text \<open>The message handed to the mail provider; the rendered text is kept as the list of titles.\<close>

record email_msg =
  e_to :: string
  e_subject :: string
  e_movies :: "string list"

text \<open>
  The movies with a release date from \<open>now\<close> to \<open>nextMonth\<close>, the date one month
  after \<open>now\<close>.
\<close>

definition upcomingMovies :: "db \<Rightarrow> int \<Rightarrow> int \<Rightarrow> movie_doc list" where
  "upcomingMovies d now nextMonth =
     filter (\<lambda>m. case releaseDate m of None \<Rightarrow> False | Some t \<Rightarrow> now \<le> t \<and> t \<le> nextMonth)
       (movies d)"

text \<open>The filter of the loop body: a favourite genre, or a favourite actor among the actors.\<close>

definition relevantMovies :: "db \<Rightarrow> user_doc \<Rightarrow> movie_doc list \<Rightarrow> movie_doc list" where
  "relevantMovies d u ms =
     filter (\<lambda>m. list_ex (\<lambda>g. g \<in> set (favoriteGenres u)) (genre m) \<or>
                 list_ex (\<lambda>actor. list_ex (\<lambda>favActor. p_id favActor = p_id actor)
                                     (populate_persons d (favoriteActors u)))
                   (populate_persons d (actors m)))
       ms"

text \<open>\<open>NotificationService.sendNotification\<close>: the messages it dispatches, none or one.\<close>

definition sendNotification :: "user_doc \<Rightarrow> movie_doc list \<Rightarrow> email_msg list" where
  "sendNotification u ms =
     (if sendNotifications u \<and> email u \<noteq> []
      then [\<lparr>e_to = email u, e_subject = ''Upcoming Movies Notification'',
             e_movies = map title ms\<rparr>]
      else [])"

text \<open>\<open>NotificationService.checkUpcomingMovies\<close>: the messages dispatched, in order.\<close>

definition checkUpcomingMovies :: "db \<Rightarrow> int \<Rightarrow> int \<Rightarrow> email_msg list" where
  "checkUpcomingMovies d now nextMonth =
     concat (map (\<lambda>u. if user_type u = Some ''admin'' then []
                       else (let relevant = relevantMovies d u (upcomingMovies d now nextMonth)
                             in if 0 < length relevant then sendNotification u relevant else []))
               (filter (\<lambda>u. remindersForNewReleases u \<or> sendNotifications u) (users d)))"


section \<open>Sample data\<close>

text \<open>An ObjectId in string form: 24 hexadecimal digits.\<close>

definition hex24 :: "string \<Rightarrow> bool" where
  "hex24 s = (length s = 24 \<and> list_all (\<lambda>c. radix_digit 16 c \<noteq> None) s)"

definition sample_movie :: movie_doc where
  "sample_movie = \<lparr>m_id = ''507f1f77bcf86cd799439011'', title = ''Inception'',
     genre = [''Action'', ''Sci-Fi''], actors = [''507f1f77bcf86cd799439012''],
     directors = [''507f1f77bcf86cd799439013''], releaseDate = Some 1279238400000,
     runtime = Some 148, averageRating = 0, ageRating = Some ''PG-13'', boxOffice = []\<rparr>"

definition sample_unreviewed :: movie_doc where
  "sample_unreviewed = sample_movie\<lparr>m_id := ''507f1f77bcf86cd799439014'', title := ''Tenet''\<rparr>"

definition sample_alice :: user_doc where
  "sample_alice = \<lparr>u_id = ''64b000000000000000000001'', username = ''alice'',
     email = ''alice@x.com'', favoriteGenres = [''Sci-Fi''], favoriteActors = [],
     role = ''user'', wishlist = [], remindersForNewReleases = True,
     sendNotifications = True\<rparr>"

definition sample_bob :: user_doc where
  "sample_bob = sample_alice\<lparr>u_id := ''64b000000000000000000002'', username := ''bob'',
     email := ''bob@x.com''\<rparr>"

definition sample_bob_review :: review where
  "sample_bob_review = \<lparr>r_id = ''65c000000000000000000001'', user = u_id sample_bob,
     movie = m_id sample_movie, rating = 5, reviewText = ''Great'', createdAt = 500,
     updatedAt = 500\<rparr>"

definition sample_db :: db where
  "sample_db = \<lparr>movies = [sample_movie\<lparr>averageRating := 5\<rparr>, sample_unreviewed],
     users = [sample_alice, sample_bob], reviews = [sample_bob_review], persons = [],
     news = [], customLists = []\<rparr>"

definition sample_alice_review :: review where
  "sample_alice_review = \<lparr>r_id = ''65c000000000000000000002'', user = u_id sample_alice,
     movie = m_id sample_movie, rating = 4, reviewText = ''Good'', createdAt = 1000,
     updatedAt = 1000\<rparr>"

definition sample_db_reviewed :: db where
  "sample_db_reviewed = sample_db\<lparr>movies := [sample_movie\<lparr>averageRating := 9 / 2\<rparr>, sample_unreviewed],
     reviews := [sample_bob_review, sample_alice_review]\<rparr>"

definition sample_db_updated :: db where
  "sample_db_updated = sample_db\<lparr>movies := [sample_movie\<lparr>averageRating := 7 / 2\<rparr>, sample_unreviewed],
     reviews := [sample_bob_review, sample_alice_review\<lparr>rating := 2, updatedAt := 2000\<rparr>]\<rparr>"

definition sample_carol :: user_doc where
  "sample_carol = sample_alice\<lparr>u_id := ''64b000000000000000000003'', username := ''carol'',
     email := ''carol@x.com'', sendNotifications := False\<rparr>"

definition sample_admin :: user_doc where
  "sample_admin = sample_alice\<lparr>u_id := ''64b000000000000000000004'', username := ''dave'',
     email := ''dave@x.com'', role := ''admin''\<rparr>"

definition sample_notify_db :: db where
  "sample_notify_db = sample_db\<lparr>users := [sample_alice, sample_carol, sample_admin],
     movies := [sample_movie\<lparr>releaseDate := Some 1500\<rparr>]\<rparr>"

definition sample_nolan :: person_doc where
  "sample_nolan = \<lparr>p_id = ''507f1f77bcf86cd799439013'', name = ''Christopher Nolan'',
     ptype = ''director'', filmography = []\<rparr>"

definition sample_article :: news_doc where
  "sample_article = \<lparr>n_id = ''66d000000000000000000001'', n_title = ''Sequel'',
     n_description = ''A sequel is announced'', n_content = ''The studio confirmed it.'',
     n_category = ''Movies'', relatedMovies = [], relatedActors = []\<rparr>"

definition sample_list :: customlist_doc where
  "sample_list = \<lparr>l_id = ''67e000000000000000000001'', l_user = u_id sample_alice,
     l_name = ''Favourites'', l_description = [], l_movies = []\<rparr>"

definition sample_refs_db :: db where
  "sample_refs_db = sample_db\<lparr>persons := [sample_nolan], news := [sample_article],
     customLists := [sample_list]\<rparr>"

definition sample_movie_body :: movie_body where
  "sample_movie_body = \<lparr>mb_title = Some ''Dunkirk'', mb_genre = Some [''War''],
     mb_directors = Some [p_id sample_nolan], mb_actors = Some [],
     mb_releaseDate = Some 1500595200000, mb_runtime = Some 106, mb_averageRating = None,
     mb_ageRating = Some ''PG-13'', mb_boxOffice = [], mb_countryOfOrigin = Some ''UK'',
     mb_language = Some ''English''\<rparr>"

definition sample_news_body :: news_body where
  "sample_news_body = \<lparr>nb_title = Some ''Casting'', nb_description = Some ''New cast'',
     nb_content = Some ''The cast is complete.'', nb_category = Some ''Actors'',
     nb_relatedMovies = None, nb_relatedActors = None\<rparr>"

section \<open>Properties of the review handlers\<close>




















lemma replaceById_None: "findById key xs (key d) = None \<Longrightarrow> replaceById key d xs = xs"
  by (induction xs) (auto simp: findById_def split: if_splits)











subsection \<open>The handlers on the sample data\<close>

lemmas sample_defs = sample_movie_def sample_unreviewed_def sample_alice_def sample_bob_def
  sample_bob_review_def sample_db_def sample_alice_review_def sample_db_reviewed_def
  sample_db_updated_def

lemmas review_defs = post_review_def save_new_review_def save_updated_review_def put_review_def
  post_save_def updateMovieRating_def findById_def reviews_of_def average_def
  review_validation_def movie_validation_def hex24_def radix_digit_def apply_update_def
  truthy_num_def truthy_str_def Let_def



subsection \<open>Average rating\<close>



subsection \<open>A review without text\<close>

text \<open>
  C2. A logged-in user who has not reviewed the movie posts the movie id and the rating
  4 and no \<open>reviewText\<close>. The handler lets the request through its own checks, the
  schema's required \<open>reviewText\<close> fails the save, and the reply is 500 with nothing
  stored: neither 201 nor an average of 4.
\<close>

theorem review_without_text_fails:
  "post_review hex24 sample_db 1000 ''65c000000000000000000002'' (u_id sample_alice)
     \<lparr>b_movie = Some (m_id sample_movie), b_rating = Some 4, b_reviewText = None\<rparr>
   = ((500, MessageError ''Error adding review'' (ValidationError [''reviewText''])), sample_db)"
  by (simp add: sample_defs review_defs)

subsection \<open>One review per user and movie\<close>



subsection \<open>A movie without reviews\<close>



subsection \<open>What an update leaves alone\<close>



section \<open>Properties of the paginated listings\<close>







lemma ceil_div_int:
  "l \<noteq> 0 \<Longrightarrow> js_ceil (js_div (Fin (of_nat t)) (Fin (of_int l)))
     = Fin (of_int \<lceil>rat_of_nat t / rat_of_int l\<rceil>)"
  by simp














subsection \<open>Page counts and windows\<close>






subsection \<open>Page and limit\<close>




subsection \<open>Trending and top rated\<close>



section \<open>Properties of the notification job\<close>

lemmas notify_defs = checkUpcomingMovies_def upcomingMovies_def relevantMovies_def
  sendNotification_def user_type_def populate_persons_def List.map_filter_def

lemma sendNotification_to:
  "e \<in> set (sendNotification u ms) \<Longrightarrow> e_to e = email u \<and> sendNotifications u \<and> email u \<noteq> []"
  by (auto simp: sendNotification_def split: if_splits)

lemma job_recipients:
  "e_to ` set (checkUpcomingMovies d now nextMonth) =
     email ` {u \<in> set (users d). sendNotifications u \<and> email u \<noteq> [] \<and>
                relevantMovies d u (upcomingMovies d now nextMonth) \<noteq> []}"
  by (auto simp: checkUpcomingMovies_def user_type_def sendNotification_def Let_def image_iff
           split: if_splits)

lemma sample_job:
  "checkUpcomingMovies sample_notify_db 1000 2000 =
     [\<lparr>e_to = ''alice@x.com'', e_subject = ''Upcoming Movies Notification'', e_movies = [''Inception'']\<rparr>,
      \<lparr>e_to = ''dave@x.com'', e_subject = ''Upcoming Movies Notification'', e_movies = [''Inception'']\<rparr>]"
  by (simp add: notify_defs sample_notify_db_def sample_db_def sample_movie_def sample_alice_def
        sample_carol_def sample_admin_def)

text \<open>
  C5, as amended. Among the users that are not admins (addresses being unique, as the
  schema asks), the job dispatches a message to a user exactly when the user has
  \<open>sendNotifications\<close> set, has an address, and has a non-empty set of relevant
  movies: upcoming movies within the month that share a favourite genre or feature a
  favourite actor. A user with only \<open>remindersForNewReleases\<close> set is selected by the
  query and receives nothing.
\<close>

theorem notification_recipients:
  assumes "u \<in> set (users d)" and "role u \<noteq> ''admin''" and "distinct (map email (users d))"
  shows "(email u \<in> e_to ` set (checkUpcomingMovies d now nextMonth)) \<longleftrightarrow>
         (sendNotifications u \<and> email u \<noteq> [] \<and>
          relevantMovies d u (upcomingMovies d now nextMonth) \<noteq> [])"
proof -
  have inj: "inj_on email (set (users d))" using assms(3) by (simp add: distinct_map)
  show ?thesis
    unfolding job_recipients using assms(1) inj by (auto simp: inj_on_def)
qed

lemmas sample_notify_defs = sample_notify_db_def sample_db_def sample_movie_def
  sample_alice_def sample_carol_def sample_admin_def

theorem notification_recipients_witness:
  "sample_alice \<in> set (users sample_notify_db) \<and> role sample_alice \<noteq> ''admin'' \<and>
   distinct (map email (users sample_notify_db)) \<and>
   sendNotifications sample_alice \<and>
   relevantMovies sample_notify_db sample_alice (upcomingMovies sample_notify_db 1000 2000) \<noteq> [] \<and>
   email sample_alice \<in> e_to ` set (checkUpcomingMovies sample_notify_db 1000 2000)"
proof -
  have h: "sample_alice \<in> set (users sample_notify_db)" "role sample_alice \<noteq> ''admin''"
    "distinct (map email (users sample_notify_db))"
    by (simp_all add: sample_notify_defs)
  have r: "sendNotifications sample_alice" "email sample_alice \<noteq> []"
    "relevantMovies sample_notify_db sample_alice (upcomingMovies sample_notify_db 1000 2000) \<noteq> []"
    by (simp_all add: sample_notify_defs upcomingMovies_def relevantMovies_def)
  from notification_recipients [OF h, of 1000 2000] h r show ?thesis by blast
qed

text \<open>
  A user who is no admin, has \<open>remindersForNewReleases\<close> set and \<open>sendNotifications\<close>
  unset, and has a relevant upcoming movie, receives no message.
\<close>

theorem reminders_only_user_not_notified:
  "sample_carol \<in> set (users sample_notify_db) \<and> role sample_carol \<noteq> ''admin'' \<and>
   remindersForNewReleases sample_carol \<and> \<not> sendNotifications sample_carol \<and>
   relevantMovies sample_notify_db sample_carol (upcomingMovies sample_notify_db 1000 2000) \<noteq> [] \<and>
   email sample_carol \<notin> e_to ` set (checkUpcomingMovies sample_notify_db 1000 2000)"
  by (simp add: sample_job) (simp add: sample_notify_defs upcomingMovies_def relevantMovies_def)

text \<open>
  The loop compares \<open>user.type\<close> with \<open>'admin'\<close>; an admin with the flag set and a
  relevant movie is sent the message like any other user.
\<close>

lemma admin_is_notified:
  "role sample_admin = ''admin'' \<and>
   email sample_admin \<in> e_to ` set (checkUpcomingMovies sample_notify_db 1000 2000)"
  by (simp add: sample_job) (simp add: sample_notify_defs)

section \<open>Properties of the writes that attach references\<close>











lemmas sample_refs_defs = sample_refs_db_def sample_db_def sample_movie_def
  sample_unreviewed_def sample_alice_def sample_bob_def sample_bob_review_def sample_nolan_def
  sample_article_def sample_list_def sample_movie_body_def sample_news_body_def

lemmas refs_defs = post_movie_def put_movie_def add_news_def update_news_def
  customlist_add_movie_def wishlist_add_def find_in_def missing_ids_def
  checkObjectIdsExist_def truthy_num_def truthy_str_def validCategories_def hex24_def
  radix_digit_def findById_def rejected_def news_fields_ok_def Let_def



text \<open>
  The wishlist stores an id that is no movie, and the news update looks the movie ids
  up among the persons: it refuses the id of a stored movie and stores the id of a
  person.
\<close>

lemma wishlist_add_unchecked:
  "''507f1f77bcf86cd799439099'' \<notin> m_id ` set (movies sample_refs_db) \<and>
   wishlist_add hex24 sample_refs_db (u_id sample_alice) (Some ''507f1f77bcf86cd799439099'')
     = (Reply 200 ''Movie added to wishlist successfully'',
        sample_refs_db\<lparr>users := [sample_alice\<lparr>wishlist := [''507f1f77bcf86cd799439099'']\<rparr>,
                                   sample_bob]\<rparr>)"
  by (simp add: sample_refs_defs refs_defs)

lemma update_news_checks_persons:
  "update_news hex24 sample_refs_db (n_id sample_article) ''admin''
      (sample_news_body\<lparr>nb_relatedMovies := Some [m_id sample_movie]\<rparr>)
     = (Reply 400 ''The following related movie IDs do not exist: 507f1f77bcf86cd799439011'',
        sample_refs_db) \<and>
   m_id sample_movie \<in> m_id ` set (movies sample_refs_db) \<and>
   p_id sample_nolan \<notin> m_id ` set (movies sample_refs_db) \<and>
   fst (update_news hex24 sample_refs_db (n_id sample_article) ''admin''
      (sample_news_body\<lparr>nb_relatedMovies := Some [p_id sample_nolan]\<rparr>))
     = Reply 200 ''News article updated successfully''"
  by (simp add: sample_refs_defs refs_defs apply_news_update_def news_validation_def)

end
